theory Spec2Isabelle
  imports Complex_Main "HOL-Library.Sublist"
begin

section \<open>Conventions\<close>

text \<open>
  The three Python modules are embedded as pure functions.  Python floats (prices, clock
  readings) are idealised as \<^typ>\<open>real\<close>, Python integers are \<^typ>\<open>int\<close>, a JSON object
  with string keys is a map, and an unbound local variable is \<open>None\<close> of an option type.
  Every \<open>raise\<close> of the source is a value of \<open>error\<close>; state that the source mutates in
  place (the port counter, the broker, the console) is passed in and returned.
\<close>

datatype error =
    ValueError
  | KeyError
  | AttributeError
  | UnboundLocalError string
  | NoMorePortsException

section \<open>main.py: processes and ports\<close>

datatype target =
    RealtimePricePublisher
  | RealtimePricesManager
  | RealtimePriceDisplayConsumer
  | IndividualTradeExecution

datatype arg =
    Str string
  | StrList "string list"
  | Port "int option"
  | PortList "int option list"

text \<open>A \<open>multiprocessing.Process\<close>: what it will run, and whether \<open>start()\<close> was called.\<close>

record Process =
  target :: target
  args :: "arg list"
  started :: bool

record ChildrenProcessesData =
  next_free_port :: int
  max_port :: int
  child_processes :: "Process list"

text \<open>\<open>ChildrenProcessesData.__init__\<close> (defaults 13140 and 13399).\<close>

definition ChildrenProcessesData_init :: "int \<Rightarrow> int \<Rightarrow> error + ChildrenProcessesData" where
  "ChildrenProcessesData_init initial_port maxp =
     (if initial_port > maxp then Inl ValueError
      else Inr \<lparr>next_free_port = initial_port, max_port = maxp, child_processes = []\<rparr>)"

text \<open>
  \<open>register_process_with_port\<close>.  The keyword arguments default to \<open>None\<close>, hence the
  options.  The object \<open>cpd\<close> is updated in place: the model returns the updated object
  next to the result.  Both \<open>raise\<close> statements come before any update, so an exception
  leaves the caller's object as it was.
\<close>

definition register_process_with_port ::
  "target option \<Rightarrow> arg list option \<Rightarrow> bool \<Rightarrow> ChildrenProcessesData option \<Rightarrow>
   error + (Process \<times> int option) \<times> ChildrenProcessesData" where
  "register_process_with_port tgt ars need_port cpd =
     (case (tgt, ars, cpd) of
        (Some tg, Some ar, Some c) \<Rightarrow>
          if need_port then
            if next_free_port c > max_port c then Inl NoMorePortsException
            else
              let new_port = next_free_port c;
                  args_w_port = ar @ [Port (Some new_port)];
                  c1 = c\<lparr>next_free_port := next_free_port c + 1\<rparr>;
                  process = \<lparr>target = tg, args = args_w_port, started = False\<rparr>
              in Inr ((process, Some new_port),
                      c1\<lparr>child_processes := child_processes c1 @ [process]\<rparr>)
          else
            let process = \<lparr>target = tg, args = ar, started = False\<rparr>
            in Inr ((process, None), c\<lparr>child_processes := child_processes c @ [process]\<rparr>)
      | _ \<Rightarrow> Inl ValueError)"

text \<open>The first loop of \<open>__main__\<close>: one publisher, with a port of its own, per ticker.\<close>

fun register_publishers ::
  "string list \<Rightarrow> ChildrenProcessesData \<Rightarrow> (error + int option list) \<times> ChildrenProcessesData" where
  "register_publishers [] cpd = (Inr [], cpd)"
| "register_publishers (ticker # tickers) cpd =
     (case register_process_with_port (Some RealtimePricePublisher) (Some [Str ticker]) True (Some cpd) of
        Inl e \<Rightarrow> (Inl e, cpd)
      | Inr ((publisher_process, publisher_port), cpd1) \<Rightarrow>
          (case register_publishers tickers cpd1 of
             (Inl e, cpd2) \<Rightarrow> (Inl e, cpd2)
           | (Inr ports, cpd2) \<Rightarrow> (Inr (publisher_port # ports), cpd2)))"

text \<open>The last loop of \<open>__main__\<close>: one trade execution process per ticker, no port.\<close>

fun register_traders ::
  "string list \<Rightarrow> int option \<Rightarrow> ChildrenProcessesData \<Rightarrow> error option \<times> ChildrenProcessesData" where
  "register_traders [] prices_manager_port cpd = (None, cpd)"
| "register_traders (ticker # tickers) prices_manager_port cpd =
     (case register_process_with_port (Some IndividualTradeExecution)
             (Some [Str ticker, Port prices_manager_port]) False (Some cpd) of
        Inl e \<Rightarrow> (Some e, cpd)
      | Inr (r, cpd1) \<Rightarrow> register_traders tickers prices_manager_port cpd1)"

definition start :: "Process \<Rightarrow> Process" where
  "start p = p\<lparr>started := True\<rparr>"

text \<open>
  \<open>__main__\<close> up to and including the loop that starts the children, with the ticker list
  and the port range as parameters (the script fixes five tickers and the default range).
  The registrations are outside the \<open>try\<close>: an exception there ends the script, and the
  result holds the processes as they are at that moment.
\<close>

definition main :: "string list \<Rightarrow> int \<Rightarrow> int \<Rightarrow> error option \<times> Process list" where
  "main tickers initial_port maxp =
     (case ChildrenProcessesData_init initial_port maxp of
        Inl e \<Rightarrow> (Some e, [])
      | Inr child_processes_data \<Rightarrow>
          (case register_publishers tickers child_processes_data of
             (Inl e, cpd1) \<Rightarrow> (Some e, child_processes cpd1)
           | (Inr realtime_price_ports, cpd1) \<Rightarrow>
               (case register_process_with_port (Some RealtimePricesManager)
                       (Some [StrList tickers, PortList realtime_price_ports]) True (Some cpd1) of
                  Inl e \<Rightarrow> (Some e, child_processes cpd1)
                | Inr ((prices_manager_process, prices_manager_port), cpd2) \<Rightarrow>
                    (case register_process_with_port (Some RealtimePriceDisplayConsumer)
                            (Some [StrList tickers, Port prices_manager_port]) False (Some cpd2) of
                       Inl e \<Rightarrow> (Some e, child_processes cpd2)
                     | Inr (r, cpd3) \<Rightarrow>
                         (case register_traders tickers prices_manager_port cpd3 of
                            (Some e, cpd4) \<Rightarrow> (Some e, child_processes cpd4)
                          | (None, cpd4) \<Rightarrow> (None, map start (child_processes cpd4)))))))"

text \<open>
  A run of port-needing registrations from one allocator state, stopping at the first
  one that raises: the ports handed out, in order, the exception if there was one, and
  the allocator at the end.
\<close>

fun allocate_ports ::
  "(target \<times> arg list) list \<Rightarrow> ChildrenProcessesData \<Rightarrow>
   int option list \<times> error option \<times> ChildrenProcessesData" where
  "allocate_ports [] cpd = ([], None, cpd)"
| "allocate_ports ((tg, ar) # reqs) cpd =
     (case register_process_with_port (Some tg) (Some ar) True (Some cpd) of
        Inl e \<Rightarrow> ([], Some e, cpd)
      | Inr ((process, new_port), cpd1) \<Rightarrow>
          (case allocate_ports reqs cpd1 of (ports, e, cpd2) \<Rightarrow> (new_port # ports, e, cpd2)))"

section \<open>dataModule.py: publisher and display consumer\<close>

text \<open>The JSON object a publisher sends: keys \<open>symbol\<close>, \<open>price\<close>, \<open>time\<close>.\<close>

record tick =
  symbol :: string
  price :: real
  time :: real

type_synonym snapshot = "string \<rightharpoonup> tick"

text \<open>\<open>get_realtime_price\<close>; the second argument is the reading of \<open>time.time()\<close>.\<close>

definition get_realtime_price :: "string \<Rightarrow> real \<Rightarrow> int \<Rightarrow> tick" where
  "get_realtime_price ticker now i =
     \<lparr>symbol = ticker, price = 100.0 + of_int i / 10, time = now\<rparr>"

text \<open>
  The main loop of \<open>realtime_price_publisher\<close>, run for as many iterations as there are
  clock readings: the counter is incremented, then the tick is built and sent.
\<close>

fun publisher_loop :: "string \<Rightarrow> int \<Rightarrow> real list \<Rightarrow> tick list" where
  "publisher_loop ticker i [] = []"
| "publisher_loop ticker i (now # nows) =
     (let i1 = i + 1; latest_price = get_realtime_price ticker now i1
      in latest_price # publisher_loop ticker i1 nows)"

definition realtime_price_publisher :: "string \<Rightarrow> real list \<Rightarrow> tick list" where
  "realtime_price_publisher ticker nows = publisher_loop ticker 0 nows"

text \<open>
  \<open>print_realtime_price\<close> of the display consumer: one line per tracked ticker that the
  snapshot holds (\<open>prices.get(ticker)\<close> is \<open>None\<close> for the others), then an empty line.
\<close>

datatype line = PriceLine string real real | EmptyLine

definition print_realtime_price :: "string list \<Rightarrow> snapshot \<Rightarrow> line list" where
  "print_realtime_price tickers prices =
     concat (map (\<lambda>ticker. case prices ticker of
                               None \<Rightarrow> []
                             | Some price_data \<Rightarrow> [PriceLine ticker (price price_data) (time price_data)])
                 tickers)
     @ [EmptyLine]"

section \<open>tradingModule.py: the broker\<close>

datatype OrderSide = BUY | SELL

datatype TimeInForce = DAY | GTC | OPG | CLS | IOC | FOK

record LimitOrderRequest =
  order_symbol :: string
  limit_price :: real
  qty :: real
  side :: OrderSide
  time_in_force :: TimeInForce

text \<open>An open order as the broker reports it: the fields of a request, and its id.\<close>

record Order = LimitOrderRequest +
  order_id :: nat

record Position =
  position_symbol :: string
  position_qty :: real

text \<open>
  An exception raised by the broker's client.  The broker's own API errors carry a
  \<open>message\<close>; exceptions of other classes (a connection error, say) have no such attribute.
\<close>

datatype exn = Exn (message: "string option")

text \<open>
  The trading client is outside the repository: its four operations are parameters, each a
  transition of a broker state \<open>'b\<close> that returns the result or the exception raised.
\<close>

record 'b TradingClient =
  get_open_position :: "string \<Rightarrow> 'b \<Rightarrow> (exn + Position) \<times> 'b"
  get_orders :: "string \<Rightarrow> 'b \<Rightarrow> (exn + Order list) \<times> 'b"
  cancel_order_by_id :: "nat \<Rightarrow> 'b \<Rightarrow> (exn + unit) \<times> 'b"
  submit_order :: "LimitOrderRequest \<Rightarrow> 'b \<Rightarrow> (exn + Order) \<times> 'b"

datatype call =
    GetOpenPosition string
  | GetOrders string
  | CancelOrderById nat
  | SubmitOrder LimitOrderRequest

text \<open>What the trading process prints, one constructor per \<open>print\<close> of the source.\<close>

datatype printout =
    WarningFetchingPosition
  | WarningFetchingOrders
  | WarningMultipleOpenOrders
  | CancelledBizarreOrder nat
  | WarningCancellingBizarreOrder
  | WarningCancellingExistingOrder
  | OrderAlreadyExists
  | ErrorSubmittingOrder
  | WarningStaleTradeRequest
  | ErrorExecutingTrade error
  | OrderUpdated nat
  | ProcessEncounteredError error
  | SocketAndContextClosed

text \<open>The world of one trading process: the broker, the calls made to it, the console.\<close>

record 'b world =
  broker :: 'b
  calls :: "call list"
  printed :: "printout list"

definition do_call :: "call \<Rightarrow> ('b \<Rightarrow> 'r \<times> 'b) \<Rightarrow> 'b world \<Rightarrow> 'r \<times> 'b world" where
  "do_call c f w =
     (case f (broker w) of (r, b) \<Rightarrow> (r, w\<lparr>broker := b, calls := calls w @ [c]\<rparr>))"

definition print :: "printout \<Rightarrow> 'b world \<Rightarrow> 'b world" where
  "print m w = w\<lparr>printed := printed w @ [m]\<rparr>"

section \<open>tradingModule.py: \<open>execute_trade\<close>\<close>

text \<open>
  \<open>round(float(x), 2)\<close> on the idealised reals: to the nearest hundredth, a tie to the
  even one.
\<close>

definition round2 :: "real \<Rightarrow> real" where
  "round2 x =
     (let y = x * 100; f = \<lfloor>y\<rfloor>; d = y - of_int f
      in if d < 1 / 2 then of_int f / 100
         else if 1 / 2 < d then of_int (f + 1) / 100
         else if even f then of_int f / 100 else of_int (f + 1) / 100)"

text \<open>
  Lines 59 to 76: the order request.  When neither branch is taken the local variable
  \<open>order_req\<close> stays unbound, which is the result \<open>None\<close>.
\<close>

fun order_request ::
  "string \<Rightarrow> Position option \<Rightarrow> real option \<Rightarrow> real option \<Rightarrow> int \<Rightarrow> LimitOrderRequest option" where
  "order_request ticker None (Some buy_price) sell_price buy_quantity =
     Some \<lparr>order_symbol = ticker, limit_price = buy_price, qty = of_int buy_quantity,
           side = BUY, time_in_force = DAY\<rparr>"
| "order_request ticker (Some position) buy_price (Some sell_price) buy_quantity =
     Some \<lparr>order_symbol = ticker, limit_price = sell_price, qty = position_qty position,
           side = SELL, time_in_force = DAY\<rparr>"
| "order_request ticker position buy_price sell_price buy_quantity = None"

text \<open>The condition of lines 102 to 105.\<close>

definition differs :: "LimitOrderRequest \<Rightarrow> Order \<Rightarrow> bool" where
  "differs order_req order \<longleftrightarrow>
     side order_req \<noteq> side order
     \<or> round2 (limit_price order_req) \<noteq> round2 (limit_price order)
     \<or> round2 (qty order_req) \<noteq> round2 (qty order)
     \<or> time_in_force order_req \<noteq> time_in_force order"

text \<open>
  Lines 116 to 121.  Reading an unbound \<open>order_req\<close> raises inside the \<open>try\<close> and is caught
  like a failure of the broker; either way \<open>new_order\<close> is then unbound at the \<open>return\<close>.
\<close>

definition submit ::
  "'b TradingClient \<Rightarrow> LimitOrderRequest option \<Rightarrow> 'b world \<Rightarrow> (error + Order option) \<times> 'b world" where
  "submit trading_client order_req w =
     (case order_req of
        None \<Rightarrow> (Inl (UnboundLocalError ''new_order''), print ErrorSubmittingOrder w)
      | Some req \<Rightarrow>
          (case do_call (SubmitOrder req) (submit_order trading_client req) w of
             (Inl e, w1) \<Rightarrow> (Inl (UnboundLocalError ''new_order''), print ErrorSubmittingOrder w1)
           | (Inr new_order, w1) \<Rightarrow> (Inr (Some new_order), w1)))"

text \<open>
  The loop of lines 91 to 97; \<open>False\<close> when a cancellation raised and the function returned
  from inside the loop.
\<close>

fun cancel_all :: "'b TradingClient \<Rightarrow> Order list \<Rightarrow> 'b world \<Rightarrow> bool \<times> 'b world" where
  "cancel_all trading_client [] w = (True, w)"
| "cancel_all trading_client (order # orders) w =
     (case do_call (CancelOrderById (order_id order))
             (cancel_order_by_id trading_client (order_id order)) w of
        (Inl e, w1) \<Rightarrow> (False, print WarningCancellingBizarreOrder w1)
      | (Inr u, w1) \<Rightarrow> cancel_all trading_client orders (print (CancelledBizarreOrder (order_id order)) w1))"


text \<open>Lines 78 to 121: from the query of the open orders to the end of the function.\<close>

definition reconcile ::
  "'b TradingClient \<Rightarrow> string \<Rightarrow> LimitOrderRequest option \<Rightarrow> 'b world \<Rightarrow>
   (error + Order option) \<times> 'b world" where
  "reconcile trading_client ticker order_req w =
     (case do_call (GetOrders ticker) (get_orders trading_client ticker) w of
        (Inl e, w1) \<Rightarrow> (Inr None, print WarningFetchingOrders w1)
      | (Inr orders, w1) \<Rightarrow>
          if length orders > 1 then
            (case cancel_all trading_client orders (print WarningMultipleOpenOrders w1) of
               (False, w2) \<Rightarrow> (Inr None, w2)
             | (True, w2) \<Rightarrow> submit trading_client order_req w2)
          else if length orders = 1 then
            (let order = hd orders in
             case order_req of
               None \<Rightarrow> (Inl (UnboundLocalError ''order_req''), w1)
             | Some req \<Rightarrow>
                 if differs req order then
                   (case do_call (CancelOrderById (order_id order))
                           (cancel_order_by_id trading_client (order_id order)) w1 of
                      (Inl e, w2) \<Rightarrow> (Inr None, print WarningCancellingExistingOrder w2)
                    | (Inr u, w2) \<Rightarrow> submit trading_client order_req w2)
                 else (Inr None, print OrderAlreadyExists w1))
          else submit trading_client order_req w1)"

text \<open>
  \<open>execute_trade\<close>.  The handler of the position query reads \<open>e.message\<close>, which itself
  raises when the exception has no such attribute.
\<close>

definition execute_trade ::
  "'b TradingClient \<Rightarrow> string \<Rightarrow> real option \<Rightarrow> real option \<Rightarrow> int \<Rightarrow> 'b world \<Rightarrow>
   (error + Order option) \<times> 'b world" where
  "execute_trade trading_client ticker buy_price sell_price buy_quantity w =
     (case do_call (GetOpenPosition ticker) (get_open_position trading_client ticker) w of
        (Inr position, w1) \<Rightarrow>
          reconcile trading_client ticker
            (order_request ticker (Some position) buy_price sell_price buy_quantity) w1
      | (Inl e, w1) \<Rightarrow>
          (case message e of
             None \<Rightarrow> (Inl AttributeError, w1)
           | Some m \<Rightarrow>
               if sublist ''position does not exist'' m then
                 reconcile trading_client ticker
                   (order_request ticker None buy_price sell_price buy_quantity) w1
               else (Inr None, print WarningFetchingPosition w1)))"

section \<open>tradingModule.py: the main loop\<close>

text \<open>
  The local variables that live across iterations.  \<open>order\<close> is unbound (\<open>None\<close>) until
  \<open>execute_trade\<close> has returned once; afterwards it holds the last value returned.
\<close>

record locals =
  last_buy :: "real option"
  last_sell :: "real option"
  last_qty :: "int option"
  order :: "Order option option"

definition initial_locals :: locals where
  "initial_locals = \<lparr>last_buy = None, last_sell = None, last_qty = None, order = None\<rparr>"

text \<open>Lines 132 to 142: the prices of the cycle, \<open>None\<close> when the tick is stale.\<close>

definition intent :: "tick \<Rightarrow> real \<Rightarrow> real option \<times> real option \<times> int" where
  "intent latest_market_make now =
     (let price = price latest_market_make;
          last_update = time latest_market_make;
          buy_price = price - 1.0;
          sell_price = price + 1.0;
          buy_quantity = 1
      in if now - last_update > 5 then (None, None, buy_quantity)
         else (Some buy_price, Some sell_price, buy_quantity))"

text \<open>
  One iteration of the \<open>while True\<close> loop, given the snapshot received and the reading of
  \<open>time.time()\<close>.  \<open>Inl\<close> is an exception that leaves the loop, with the locals and the world
  as they are when it is raised.
\<close>

definition cycle ::
  "'b TradingClient \<Rightarrow> string \<Rightarrow> snapshot \<Rightarrow> real \<Rightarrow> locals \<Rightarrow> 'b world \<Rightarrow>
   (error + unit) \<times> locals \<times> 'b world" where
  "cycle trading_client ticker received now l w =
     (case received ticker of
        None \<Rightarrow> (Inl KeyError, l, w)
      | Some latest_market_make \<Rightarrow>
          if symbol latest_market_make \<noteq> ticker then (Inl ValueError, l, w)
          else
            (case intent latest_market_make now of
               (buy_price, sell_price, buy_quantity) \<Rightarrow>
                 let w0 = (if now - time latest_market_make > 5
                           then print WarningStaleTradeRequest w else w)
                 in if buy_price = last_buy l \<and> sell_price = last_sell l
                       \<and> Some buy_quantity = last_qty l
                    then (Inr (), l, w0)
                    else
                      (case execute_trade trading_client ticker buy_price sell_price buy_quantity w0 of
                         (r, w1) \<Rightarrow>
                           let w2 = (case r of Inl e \<Rightarrow> print (ErrorExecutingTrade e) w1 | Inr v \<Rightarrow> w1);
                               l1 = (case r of Inl e \<Rightarrow> l | Inr v \<Rightarrow> l\<lparr>order := Some v\<rparr>);
                               l2 = l1\<lparr>last_buy := buy_price, last_sell := sell_price,
                                      last_qty := Some buy_quantity\<rparr>
                           in (case order l2 of
                                 None \<Rightarrow> (Inl (UnboundLocalError ''order''), l2, w2)
                               | Some None \<Rightarrow> (Inr (), l2, w2)
                               | Some (Some ord) \<Rightarrow> (Inr (), l2, print (OrderUpdated (order_id ord)) w2)))))"

text \<open>The loop over the snapshots received; it stops at the first exception.\<close>

fun trade_loop ::
  "'b TradingClient \<Rightarrow> string \<Rightarrow> (snapshot \<times> real) list \<Rightarrow> locals \<Rightarrow> 'b world \<Rightarrow>
   error option \<times> locals \<times> 'b world" where
  "trade_loop trading_client ticker [] l w = (None, l, w)"
| "trade_loop trading_client ticker ((received, now) # rest) l w =
     (case cycle trading_client ticker received now l w of
        (Inl e, l1, w1) \<Rightarrow> (Some e, l1, w1)
      | (Inr u, l1, w1) \<Rightarrow> trade_loop trading_client ticker rest l1 w1)"

text \<open>The subscription socket and its context, each open until the \<open>finally\<close> clause.\<close>

record channel =
  socket_open :: bool
  context_open :: bool

text \<open>
  \<open>individual_trade_execution\<close> on a finite run of received snapshots.  With no exception
  the process is still inside the loop, waiting for the next snapshot, and holds its
  socket; an exception is printed and raised again, and the \<open>finally\<close> clause closes the
  socket and the context on the way out.
\<close>

definition individual_trade_execution ::
  "'b TradingClient \<Rightarrow> string \<Rightarrow> (snapshot \<times> real) list \<Rightarrow> 'b world \<Rightarrow>
   error option \<times> channel \<times> locals \<times> 'b world" where
  "individual_trade_execution trading_client ticker inputs w =
     (case trade_loop trading_client ticker inputs initial_locals w of
        (None, l, w1) \<Rightarrow> (None, \<lparr>socket_open = True, context_open = True\<rparr>, l, w1)
      | (Some e, l, w1) \<Rightarrow>
          (Some e, \<lparr>socket_open = False, context_open = False\<rparr>, l,
           print SocketAndContextClosed (print (ProcessEncounteredError e) w1)))"

section \<open>Concrete inputs\<close>

text \<open>
  A broker whose four operations give fixed answers whatever its state, a world in which
  nothing has happened yet, the broker's answer when there is no position, and a snapshot
  that holds one tick for AAPL.
\<close>

definition fixed_client ::
  "(exn + Position) \<Rightarrow> (exn + Order list) \<Rightarrow> (nat \<Rightarrow> exn + unit) \<Rightarrow> (exn + Order) \<Rightarrow>
   unit TradingClient" where
  "fixed_client position orders cancelled submitted =
     \<lparr>get_open_position = (\<lambda>ticker b. (position, b)),
      get_orders = (\<lambda>ticker b. (orders, b)),
      cancel_order_by_id = (\<lambda>i b. (cancelled i, b)),
      submit_order = (\<lambda>req b. (submitted, b))\<rparr>"

definition new_world :: "unit world" where
  "new_world = \<lparr>broker = (), calls = [], printed = []\<rparr>"

definition no_position :: "exn + Position" where
  "no_position = Inl (Exn (Some ''position does not exist''))"

definition aapl :: "real \<Rightarrow> real \<Rightarrow> snapshot" where
  "aapl p t = [''AAPL'' \<mapsto> \<lparr>symbol = ''AAPL'', price = p, time = t\<rparr>]"

definition buy_order :: "nat \<Rightarrow> real \<Rightarrow> Order" where
  "buy_order i p =
     \<lparr>order_symbol = ''AAPL'', limit_price = p, qty = 1, side = BUY, time_in_force = DAY,
      order_id = i\<rparr>"

section \<open>The publisher's prices\<close>

lemma publisher_loop_length: "length (publisher_loop ticker i nows) = length nows"
  by (induction nows arbitrary: i) (simp_all add: Let_def)

lemma publisher_loop_symbol:
  "k < length nows \<Longrightarrow> symbol (publisher_loop ticker i nows ! k) = ticker"
proof (induction nows arbitrary: i k)
  case Nil
  then show ?case by simp
next
  case (Cons now nows)
  then show ?case
    by (cases k) (simp_all add: Let_def get_realtime_price_def)
qed

lemma publisher_loop_price:
  "k < length nows \<Longrightarrow>
   price (publisher_loop ticker i nows ! k) = 100 + of_int (i + int k + 1) / 10"
proof (induction nows arbitrary: i k)
  case Nil
  then show ?case by simp
next
  case (Cons now nows)
  show ?case
  proof (cases k)
    case 0
    then show ?thesis by (simp add: Let_def get_realtime_price_def)
  next
    case (Suc j)
    with Cons.prems have "j < length nows" by simp
    from Cons.IH [OF this, of "i + 1"] Suc show ?thesis
      by (simp add: Let_def add.commute add.left_commute)
  qed
qed

text \<open>
  Claim C9, as the code has it.  The counter is incremented before the tick is built, so
  the tick with index \<open>i \<ge> 1\<close> (position \<open>k = i - 1\<close> of the run) carries the ticker and the
  price \<open>100 + i / 10\<close>, and each tick after the first is one tenth above the one before:
  the prices are 100.1, 100.2, 100.3, ...
\<close>

theorem publisher_prices:
  "k < length nows \<Longrightarrow>
     length (realtime_price_publisher ticker nows) = length nows
   \<and> symbol (realtime_price_publisher ticker nows ! k) = ticker
   \<and> price (realtime_price_publisher ticker nows ! k) = 100 + (real k + 1) / 10
   \<and> (0 < k \<longrightarrow> price (realtime_price_publisher ticker nows ! k)
                 = price (realtime_price_publisher ticker nows ! (k - 1)) + 1 / 10)"
proof -
  assume k: "k < length nows"
  have p: "j < length nows \<Longrightarrow>
        price (realtime_price_publisher ticker nows ! j) = 100 + (real j + 1) / 10" for j
    by (simp add: realtime_price_publisher_def publisher_loop_price)
  have "0 < k \<Longrightarrow> price (realtime_price_publisher ticker nows ! k)
                 = price (realtime_price_publisher ticker nows ! (k - 1)) + 1 / 10"
  proof -
    assume "0 < k"
    then have "k - 1 < length nows" and "real (k - 1) = real k - 1" using k by simp_all
    then show ?thesis using p [of k] p [of "k - 1"] k by (simp add: field_simps)
  qed
  then show ?thesis
    using k p [of k]
    by (simp add: realtime_price_publisher_def publisher_loop_length publisher_loop_symbol)
qed

theorem publisher_prices_witness:
  "(0::nat) < length [0, 1 :: real]
   \<and> price (realtime_price_publisher ''AAPL'' [0, 1] ! 0) = 100.1
   \<and> price (realtime_price_publisher ''AAPL'' [0, 1] ! 1) = 100.2"
  using publisher_prices [of 0 "[0, 1]" "''AAPL''"] publisher_prices [of 1 "[0, 1]" "''AAPL''"]
  by simp

text \<open>
  Claim C9 as stated says that the sequence starts at 100.0.  The first tick sent for
  AAPL has the price 100.1.
\<close>

theorem first_tick_counterexample:
  "price (realtime_price_publisher ''AAPL'' [0] ! 0) \<noteq> 100.0"
  by (simp add: realtime_price_publisher_def get_realtime_price_def)

section \<open>Port allocation\<close>

lemma allocate_ports_spec:
  "next_free_port cpd \<le> max_port cpd + 1 \<Longrightarrow>
   allocate_ports reqs cpd =
     (map Some [next_free_port cpd .. min (max_port cpd) (next_free_port cpd + int (length reqs) - 1)],
      (if max_port cpd < next_free_port cpd + int (length reqs) - 1 then Some NoMorePortsException else None),
      snd (snd (allocate_ports reqs cpd)))"
proof (induction reqs arbitrary: cpd)
  case Nil
  then show ?case by simp
next
  case (Cons req reqs)
  obtain tg ar where req: "req = (tg, ar)" by (cases req)
  show ?case
  proof (cases "next_free_port cpd > max_port cpd")
    case True
    then show ?thesis by (simp add: req register_process_with_port_def)
  next
    case False
    then show ?thesis
      apply (simp add: req register_process_with_port_def Let_def split: prod.splits)
      apply (subst Cons.IH)
      apply (auto simp: upto_rec1[of "next_free_port cpd"] min_def)
      done
  qed
qed

lemma register_not_started:
  "register_process_with_port t a n (Some c) = Inr (r, c1) \<Longrightarrow>
   list_all (\<lambda>p. \<not> started p) (child_processes c) \<Longrightarrow>
   list_all (\<lambda>p. \<not> started p) (child_processes c1) \<and> max_port c1 = max_port c"
  by (auto simp: register_process_with_port_def Let_def split: option.splits if_splits)

lemma allocate_ports_state:
  "list_all (\<lambda>p. \<not> started p) (child_processes cpd) \<Longrightarrow>
   list_all (\<lambda>p. \<not> started p) (child_processes (snd (snd (allocate_ports reqs cpd))))
   \<and> max_port (snd (snd (allocate_ports reqs cpd))) = max_port cpd"
proof (induction reqs arbitrary: cpd)
  case Nil
  then show ?case by simp
next
  case (Cons req reqs)
  obtain tg ar where req: "req = (tg, ar)" by (cases req)
  show ?case
  proof (cases "register_process_with_port (Some tg) (Some ar) True (Some cpd)")
    case (Inl e)
    then show ?thesis using Cons.prems by (simp add: req)
  next
    case (Inr x)
    obtain r c1 where x: "x = (r, c1)" by (cases x)
    obtain p np where r: "r = (p, np)" by (cases r)
    from register_not_started [OF Inr [unfolded x] Cons.prems]
    have "list_all (\<lambda>p. \<not> started p) (child_processes c1)" and m: "max_port c1 = max_port cpd"
      by simp_all
    from Cons.IH [OF this(1)] m show ?thesis
      by (simp add: req Inr x r case_prod_beta)
  qed
qed

lemma register_publishers_not_started:
  "list_all (\<lambda>p. \<not> started p) (child_processes cpd) \<Longrightarrow>
   list_all (\<lambda>p. \<not> started p) (child_processes (snd (register_publishers tickers cpd)))"
proof (induction tickers arbitrary: cpd)
  case Nil
  then show ?case by simp
next
  case (Cons ticker tickers)
  show ?case
  proof (cases "register_process_with_port (Some RealtimePricePublisher) (Some [Str ticker]) True (Some cpd)")
    case (Inl e)
    then show ?thesis using Cons.prems by simp
  next
    case (Inr x)
    obtain r c1 where x: "x = (r, c1)" by (cases x)
    obtain p np where r: "r = (p, np)" by (cases r)
    from register_not_started [OF Inr [unfolded x] Cons.prems]
    have "list_all (\<lambda>p. \<not> started p) (child_processes c1)" by simp
    from Cons.IH [OF this] show ?thesis
      by (cases "register_publishers tickers c1"; cases "fst (register_publishers tickers c1)")
         (simp_all add: Inr x r)
  qed
qed

lemma register_traders_not_started:
  "list_all (\<lambda>p. \<not> started p) (child_processes cpd) \<Longrightarrow>
   list_all (\<lambda>p. \<not> started p) (child_processes (snd (register_traders tickers port cpd)))"
proof (induction tickers arbitrary: cpd)
  case Nil
  then show ?case by simp
next
  case (Cons ticker tickers)
  show ?case
  proof (cases "register_process_with_port (Some IndividualTradeExecution)
             (Some [Str ticker, Port port]) False (Some cpd)")
    case (Inl e)
    then show ?thesis using Cons.prems by simp
  next
    case (Inr x)
    obtain r c1 where x: "x = (r, c1)" by (cases x)
    from register_not_started [OF Inr [unfolded x] Cons.prems]
    have "list_all (\<lambda>p. \<not> started p) (child_processes c1)" by simp
    from Cons.IH [OF this] show ?thesis
      by (simp add: Inr x)
  qed
qed

lemma main_failure_not_started:
  assumes "fst (main tickers initial_port maxp) = Some e"
  shows "list_all (\<lambda>p. \<not> started p) (snd (main tickers initial_port maxp))"
proof (cases "ChildrenProcessesData_init initial_port maxp")
  case (Inl e0)
  then show ?thesis by (simp add: main_def)
next
  case (Inr c0)
  then have s0: "list_all (\<lambda>p. \<not> started p) (child_processes c0)"
    by (auto simp: ChildrenProcessesData_init_def split: if_splits)
  obtain r1 c1 where p: "register_publishers tickers c0 = (r1, c1)"
    by (cases "register_publishers tickers c0")
  from register_publishers_not_started [OF s0, of tickers] p
  have s1: "list_all (\<lambda>p. \<not> started p) (child_processes c1)" by simp
  show ?thesis
  proof (cases r1)
    case (Inl e1)
    then show ?thesis using s1 by (simp add: main_def Inr p)
  next
    case ports: (Inr ports)
    show ?thesis
    proof (cases "register_process_with_port (Some RealtimePricesManager)
                       (Some [StrList tickers, PortList ports]) True (Some c1)")
      case (Inl e2)
      then show ?thesis using s1 by (simp add: main_def Inr p ports)
    next
      case m: (Inr x)
      obtain pm mp c2 where x: "x = ((pm, mp), c2)" by (cases x) auto
      from register_not_started [OF m [unfolded x] s1]
      have s2: "list_all (\<lambda>p. \<not> started p) (child_processes c2)" by simp
      show ?thesis
      proof (cases "register_process_with_port (Some RealtimePriceDisplayConsumer)
                            (Some [StrList tickers, Port mp]) False (Some c2)")
        case (Inl e3)
        then show ?thesis using s2 by (simp add: main_def Inr p ports m x)
      next
        case d: (Inr y)
        obtain r3 c3 where y: "y = (r3, c3)" by (cases y)
        from register_not_started [OF d [unfolded y] s2]
        have s3: "list_all (\<lambda>p. \<not> started p) (child_processes c3)" by simp
        obtain r4 c4 where t: "register_traders tickers mp c3 = (r4, c4)"
          by (cases "register_traders tickers mp c3")
        from register_traders_not_started [OF s3, of tickers mp] t
        have s4: "list_all (\<lambda>p. \<not> started p) (child_processes c4)" by simp
        show ?thesis
          using assms s4 by (cases r4) (simp_all add: main_def Inr p ports m x d y t)
      qed
    qed
  qed
qed

text \<open>
  Claim C6.  Start from the allocator as \<open>ChildrenProcessesData.__init__\<close> builds it and
  make any run of port-needing registrations.  The ports handed out are
  \<open>initial_port, initial_port + 1, ...\<close> up to \<open>max_port\<close> at most: strictly increasing and
  pairwise distinct.  The run raises exactly when it asks for more ports than the range
  holds.  Whenever the next free port equals \<open>max_port\<close>, the registration succeeds and
  returns \<open>max_port\<close>, and the port-needing registration after it raises.  No registration
  starts a process, and when \<open>__main__\<close> ends with an exception raised during the
  registrations, none of its processes has been started.
\<close>

theorem port_allocation:
  assumes init: "ChildrenProcessesData_init initial_port maxp = Inr cpd0"
      and run: "allocate_ports reqs cpd0 = (ports, err, cpd)"
  shows "ports = map Some [initial_port .. min maxp (initial_port + int (length reqs) - 1)]
       \<and> sorted_wrt (<) (map the ports) \<and> distinct ports
       \<and> err = (if maxp < initial_port + int (length reqs) - 1
                 then Some NoMorePortsException else None)
       \<and> list_all (\<lambda>p. \<not> started p) (child_processes cpd)
       \<and> (next_free_port cpd = maxp \<longrightarrow>
            register_process_with_port (Some tg) (Some ar) True (Some cpd)
              = Inr ((\<lparr>target = tg, args = ar @ [Port (Some maxp)], started = False\<rparr>, Some maxp),
                     cpd\<lparr>next_free_port := maxp + 1,
                         child_processes := child_processes cpd
                            @ [\<lparr>target = tg, args = ar @ [Port (Some maxp)], started = False\<rparr>]\<rparr>)
          \<and> register_process_with_port (Some tg2) (Some ar2) True
               (Some (cpd\<lparr>next_free_port := maxp + 1,
                         child_processes := child_processes cpd
                            @ [\<lparr>target = tg, args = ar @ [Port (Some maxp)], started = False\<rparr>]\<rparr>))
              = Inl NoMorePortsException)
       \<and> (fst (main tickers initial_port maxp) \<noteq> None \<longrightarrow>
            list_all (\<lambda>p. \<not> started p) (snd (main tickers initial_port maxp)))"
proof -
  from init have c0: "next_free_port cpd0 = initial_port" "max_port cpd0 = maxp"
    "child_processes cpd0 = []" and le: "initial_port \<le> maxp"
    by (auto simp: ChildrenProcessesData_init_def split: if_splits)
  from le c0 have inv: "next_free_port cpd0 \<le> max_port cpd0 + 1" by simp
  from allocate_ports_spec [OF inv, of reqs] run c0
  have ports: "ports = map Some [initial_port .. min maxp (initial_port + int (length reqs) - 1)]"
    and err: "err = (if maxp < initial_port + int (length reqs) - 1
                 then Some NoMorePortsException else None)"
    by simp_all
  have sorted: "sorted_wrt (<) (map the ports)"
    by (simp add: ports comp_def)
  have dist: "distinct ports"
    by (simp add: ports distinct_map)
  from allocate_ports_state [of cpd0 reqs] run c0
  have ns: "list_all (\<lambda>p. \<not> started p) (child_processes cpd)" and mp: "max_port cpd = maxp"
    by simp_all
  have at_max: "next_free_port cpd = maxp \<longrightarrow>
            register_process_with_port (Some tg) (Some ar) True (Some cpd)
              = Inr ((\<lparr>target = tg, args = ar @ [Port (Some maxp)], started = False\<rparr>, Some maxp),
                     cpd\<lparr>next_free_port := maxp + 1,
                         child_processes := child_processes cpd
                            @ [\<lparr>target = tg, args = ar @ [Port (Some maxp)], started = False\<rparr>]\<rparr>)
          \<and> register_process_with_port (Some tg2) (Some ar2) True
               (Some (cpd\<lparr>next_free_port := maxp + 1,
                         child_processes := child_processes cpd
                            @ [\<lparr>target = tg, args = ar @ [Port (Some maxp)], started = False\<rparr>]\<rparr>))
              = Inl NoMorePortsException"
    using mp by (simp add: register_process_with_port_def Let_def)
  have m: "fst (main tickers initial_port maxp) \<noteq> None \<longrightarrow>
            list_all (\<lambda>p. \<not> started p) (snd (main tickers initial_port maxp))"
    using main_failure_not_started by blast
  from ports sorted dist err ns at_max m show ?thesis by blast
qed


theorem port_allocation_witness:
  "ChildrenProcessesData_init 13140 13141
     = Inr \<lparr>next_free_port = 13140, max_port = 13141, child_processes = []\<rparr>
   \<and> fst (allocate_ports [(RealtimePricePublisher, [Str ''AAPL'']),
                          (RealtimePricePublisher, [Str ''GOOGL'']),
                          (RealtimePricesManager, [])]
            \<lparr>next_free_port = 13140, max_port = 13141, child_processes = []\<rparr>)
       = [Some 13140, Some 13141]
   \<and> fst (snd (allocate_ports [(RealtimePricePublisher, [Str ''AAPL'']),
                          (RealtimePricePublisher, [Str ''GOOGL'']),
                          (RealtimePricesManager, [])]
            \<lparr>next_free_port = 13140, max_port = 13141, child_processes = []\<rparr>))
       = Some NoMorePortsException
   \<and> next_free_port (snd (snd (allocate_ports [(RealtimePricePublisher, [Str ''AAPL''])]
            \<lparr>next_free_port = 13140, max_port = 13141, child_processes = []\<rparr>))) = 13141
   \<and> fst (main [''AAPL'', ''GOOGL''] 13140 13141) = Some NoMorePortsException
   \<and> list_all (\<lambda>p. \<not> started p) (snd (main [''AAPL'', ''GOOGL''] 13140 13141))"
proof -
  let ?c0 = "\<lparr>next_free_port = 13140, max_port = 13141, child_processes = []\<rparr>"
  let ?reqs = "[(RealtimePricePublisher, [Str ''AAPL'']), (RealtimePricePublisher, [Str ''GOOGL'']),
                (RealtimePricesManager, [])]"
  have init: "ChildrenProcessesData_init 13140 13141 = Inr ?c0"
    by (simp add: ChildrenProcessesData_init_def)
  have run: "allocate_ports ?reqs ?c0
      = ([Some 13140, Some 13141], Some NoMorePortsException,
         \<lparr>next_free_port = 13142, max_port = 13141,
          child_processes = [\<lparr>target = RealtimePricePublisher,
                               args = [Str ''AAPL'', Port (Some 13140)], started = False\<rparr>,
                             \<lparr>target = RealtimePricePublisher,
                               args = [Str ''GOOGL'', Port (Some 13141)], started = False\<rparr>]\<rparr>)"
    by (simp add: register_process_with_port_def Let_def)
  have one: "allocate_ports [(RealtimePricePublisher, [Str ''AAPL''])] ?c0
      = ([Some 13140], None,
         \<lparr>next_free_port = 13141, max_port = 13141,
          child_processes = [\<lparr>target = RealtimePricePublisher,
                               args = [Str ''AAPL'', Port (Some 13140)], started = False\<rparr>]\<rparr>)"
    by (simp add: register_process_with_port_def Let_def)
  have m: "fst (main [''AAPL'', ''GOOGL''] 13140 13141) = Some NoMorePortsException"
    by (simp add: main_def ChildrenProcessesData_init_def register_process_with_port_def Let_def)
  have u: "[13140 .. 13141 :: int] = [13140, 13141]"
    by (simp add: upto_rec1)
  from port_allocation [OF init run, of RealtimePricesManager "[]" RealtimePricesManager "[]"
      "[''AAPL'', ''GOOGL'']"]
    port_allocation [OF init one, of RealtimePricesManager "[]" RealtimePricesManager "[]"
      "[''AAPL'', ''GOOGL'']"] init run one m u
  show ?thesis by simp
qed

section \<open>The trading loop\<close>

lemmas engine_defs = cycle_def intent_def execute_trade_def reconcile_def submit_def do_call_def
  print_def differs_def fixed_client_def new_world_def no_position_def aapl_def buy_order_def
  initial_locals_def individual_trade_execution_def Let_def

text \<open>
  Claim C3.  When the triple computed in a cycle equals the stored \<open>last_buy\<close>,
  \<open>last_sell\<close>, \<open>last_qty\<close>, the cycle ends at the \<open>continue\<close>: the list of broker calls and
  the broker itself are as before (no position query, no order query, no cancel, no
  submit), the local variables are unchanged and no exception leaves the loop.
\<close>

theorem idempotent_cycle:
  assumes "received ticker = Some t" and "symbol t = ticker"
      and "intent t now = (last_buy l, last_sell l, q)" and "last_qty l = Some q"
  shows "fst (cycle trading_client ticker received now l w) = Inr ()
       \<and> fst (snd (cycle trading_client ticker received now l w)) = l
       \<and> calls (snd (snd (cycle trading_client ticker received now l w))) = calls w
       \<and> broker (snd (snd (cycle trading_client ticker received now l w))) = broker w"
  using assms by (simp add: cycle_def print_def)

theorem idempotent_cycle_witness:
  "aapl 100 0 ''AAPL'' = Some \<lparr>symbol = ''AAPL'', price = 100, time = 0\<rparr>
   \<and> intent \<lparr>symbol = ''AAPL'', price = 100, time = 0\<rparr> 1 = (Some 99, Some 101, 1)
   \<and> calls (snd (snd (cycle (fixed_client no_position (Inr []) (\<lambda>i. Inr ()) (Inl (Exn None)))
         ''AAPL'' (aapl 100 0) 1
         \<lparr>last_buy = Some 99, last_sell = Some 101, last_qty = Some 1, order = Some None\<rparr>
         new_world))) = []"
proof -
  let ?t = "\<lparr>symbol = ''AAPL'', price = 100, time = 0\<rparr>"
  let ?l = "\<lparr>last_buy = Some 99, last_sell = Some 101, last_qty = Some 1, order = Some None\<rparr>"
  have a: "aapl 100 0 ''AAPL'' = Some ?t" by (simp add: aapl_def)
  have b: "symbol ?t = ''AAPL''" by simp
  have c: "intent ?t 1 = (last_buy ?l, last_sell ?l, 1)" by (simp add: intent_def)
  have d: "last_qty ?l = Some 1" by simp
  from idempotent_cycle [where received = "aapl 100 0" and ticker = "''AAPL''" and t = ?t
      and now = 1 and l = ?l and q = 1 and w = new_world
      and trading_client = "fixed_client no_position (Inr []) (\<lambda>i. Inr ()) (Inl (Exn None))"]
    a b c d
  show ?thesis by (simp add: new_world_def)
qed

text \<open>
  Claim C4.  For a tick with \<open>now - time > 5\<close> the intent computed has no buy price and no
  sell price, whatever the price of the tick; these are also the values \<open>last_buy\<close> and
  \<open>last_sell\<close> hold after a cycle on such a tick.
\<close>

theorem stale_intent:
  assumes "now - time t > 5"
  shows "intent t now = (None, None, 1)
       \<and> (received ticker = Some t \<and> symbol t = ticker \<longrightarrow>
            last_buy (fst (snd (cycle trading_client ticker received now l w))) = None
          \<and> last_sell (fst (snd (cycle trading_client ticker received now l w))) = None)"
  using assms
  by (auto simp: cycle_def intent_def Let_def split: prod.splits option.splits sum.splits)

theorem stale_intent_witness:
  "(10::real) - time \<lparr>symbol = ''AAPL'', price = 250, time = 0\<rparr> > 5
   \<and> intent \<lparr>symbol = ''AAPL'', price = 250, time = 0\<rparr> 10 = (None, None, 1)
   \<and> last_buy (fst (snd (cycle (fixed_client no_position (Inr []) (\<lambda>i. Inr ()) (Inl (Exn None)))
         ''AAPL'' (aapl 250 0) 10
         \<lparr>last_buy = Some 99, last_sell = Some 101, last_qty = Some 1, order = Some None\<rparr>
         new_world))) = None"
proof -
  let ?t = "\<lparr>symbol = ''AAPL'', price = 250, time = 0\<rparr>"
  have a: "(10::real) - time ?t > 5" by simp
  have b: "aapl 250 0 ''AAPL'' = Some ?t \<and> symbol ?t = ''AAPL''" by (simp add: aapl_def)
  from stale_intent [where now = 10 and t = ?t and received = "aapl 250 0" and ticker = "''AAPL''"
      and trading_client = "fixed_client no_position (Inr []) (\<lambda>i. Inr ()) (Inl (Exn None))"
      and l = "\<lparr>last_buy = Some 99, last_sell = Some 101, last_qty = Some 1, order = Some None\<rparr>"
      and w = new_world]
    a b
  show ?thesis by simp
qed

lemma cycle_updates_last:
  assumes "received ticker = Some t" and "symbol t = ticker" and "intent t now = (b, s, q)"
      and "\<not> (b = last_buy l \<and> s = last_sell l \<and> Some q = last_qty l)"
  shows "last_buy (fst (snd (cycle trading_client ticker received now l w))) = b
       \<and> last_sell (fst (snd (cycle trading_client ticker received now l w))) = s
       \<and> last_qty (fst (snd (cycle trading_client ticker received now l w))) = Some q"
  using assms
  by (auto simp: cycle_def Let_def split: prod.splits option.splits sum.splits)

text \<open>
  Claim C7.  In a cycle that gets past the comparison with the stored triple, the
  assignment of line 152 is reached on every path: whether \<open>execute_trade\<close> returned an
  order, returned nothing after a failure, or raised (also when the cycle then ends with
  the exception of line 153), the stored triple is the one just computed.  A following
  cycle that computes the same triple is therefore skipped: it returns without touching
  the broker, so a failing intent is not tried again.
\<close>

theorem last_intent_updated:
  assumes "received ticker = Some t" and "symbol t = ticker" and "intent t now = (b, s, q)"
      and "\<not> (b = last_buy l \<and> s = last_sell l \<and> Some q = last_qty l)"
      and "cycle trading_client ticker received now l w = (r, l1, w1)"
  shows "last_buy l1 = b \<and> last_sell l1 = s \<and> last_qty l1 = Some q
       \<and> (received2 ticker = Some t2 \<and> symbol t2 = ticker \<and> intent t2 now2 = (b, s, q) \<longrightarrow>
            cycle trading_client ticker received2 now2 l1 w1
              = (Inr (), l1, if now2 - time t2 > 5 then print WarningStaleTradeRequest w1 else w1))"
proof -
  from cycle_updates_last [where trading_client = trading_client and w = w and l = l
      and received = received and ticker = ticker and now = now and t = t and b = b and s = s and q = q]
    assms
  have u: "last_buy l1 = b \<and> last_sell l1 = s \<and> last_qty l1 = Some q" by simp
  then show ?thesis by (simp add: cycle_def)
qed

theorem last_intent_updated_witness:
  "cycle (fixed_client no_position (Inr []) (\<lambda>i. Inr ()) (Inl (Exn None))) ''AAPL'' (aapl 100 0) 1
      \<lparr>last_buy = Some 98, last_sell = Some 100, last_qty = Some 1, order = Some None\<rparr> new_world
     = (Inr (), \<lparr>last_buy = Some 99, last_sell = Some 101, last_qty = Some 1, order = Some None\<rparr>,
        \<lparr>broker = (),
         calls = [GetOpenPosition ''AAPL'', GetOrders ''AAPL'',
                  SubmitOrder \<lparr>order_symbol = ''AAPL'', limit_price = 99, qty = 1, side = BUY,
                               time_in_force = DAY\<rparr>],
         printed = [ErrorSubmittingOrder, ErrorExecutingTrade (UnboundLocalError ''new_order'')]\<rparr>)
   \<and> calls (snd (snd (cycle (fixed_client no_position (Inr []) (\<lambda>i. Inr ()) (Inl (Exn None)))
        ''AAPL'' (aapl 100 2) 3
        \<lparr>last_buy = Some 99, last_sell = Some 101, last_qty = Some 1, order = Some None\<rparr>
        \<lparr>broker = (),
         calls = [GetOpenPosition ''AAPL'', GetOrders ''AAPL'',
                  SubmitOrder \<lparr>order_symbol = ''AAPL'', limit_price = 99, qty = 1, side = BUY,
                               time_in_force = DAY\<rparr>],
         printed = [ErrorSubmittingOrder, ErrorExecutingTrade (UnboundLocalError ''new_order'')]\<rparr>)))
     = [GetOpenPosition ''AAPL'', GetOrders ''AAPL'',
                  SubmitOrder \<lparr>order_symbol = ''AAPL'', limit_price = 99, qty = 1, side = BUY,
                               time_in_force = DAY\<rparr>]"
proof -
  let ?tc = "fixed_client no_position (Inr []) (\<lambda>i. Inr ()) (Inl (Exn None))"
  let ?t = "\<lparr>symbol = ''AAPL'', price = 100, time = 0\<rparr>"
  let ?t2 = "\<lparr>symbol = ''AAPL'', price = 100, time = 2\<rparr>"
  let ?l = "\<lparr>last_buy = Some 98, last_sell = Some 100, last_qty = Some 1, order = Some None\<rparr>"
  let ?l1 = "\<lparr>last_buy = Some 99, last_sell = Some 101, last_qty = Some 1, order = Some None\<rparr>"
  let ?w1 = "\<lparr>broker = (),
         calls = [GetOpenPosition ''AAPL'', GetOrders ''AAPL'',
                  SubmitOrder \<lparr>order_symbol = ''AAPL'', limit_price = 99, qty = 1, side = BUY,
                               time_in_force = DAY\<rparr>],
         printed = [ErrorSubmittingOrder, ErrorExecutingTrade (UnboundLocalError ''new_order'')]\<rparr>"
  have a: "aapl 100 0 ''AAPL'' = Some ?t" by (simp add: aapl_def)
  have b: "symbol ?t = ''AAPL''" by simp
  have c: "intent ?t 1 = (Some 99, Some 101, 1)" by (simp add: intent_def)
  have d: "\<not> (Some 99 = last_buy ?l \<and> Some 101 = last_sell ?l \<and> Some 1 = last_qty ?l)" by simp
  have e: "cycle ?tc ''AAPL'' (aapl 100 0) 1 ?l new_world = (Inr (), ?l1, ?w1)"
    by (simp add: engine_defs)
  have f: "aapl 100 2 ''AAPL'' = Some ?t2 \<and> symbol ?t2 = ''AAPL'' \<and> intent ?t2 3 = (Some 99, Some 101, 1)"
    by (simp add: aapl_def intent_def)
  from last_intent_updated [where received = "aapl 100 0" and ticker = "''AAPL''" and t = ?t
      and now = 1 and b = "Some 99" and s = "Some 101" and q = 1 and l = ?l and trading_client = ?tc
      and w = new_world and r = "Inr ()" and ?l1.0 = ?l1 and ?w1.0 = ?w1
      and ?received2.0 = "aapl 100 2" and ?t2.0 = ?t2 and ?now2.0 = 3] a b c d e f
  show ?thesis by simp
qed

lemma trade_loop_append:
  "trade_loop trading_client ticker (before @ rest) l w =
     (case trade_loop trading_client ticker before l w of
        (None, l1, w1) \<Rightarrow> trade_loop trading_client ticker rest l1 w1
      | (Some e, l1, w1) \<Rightarrow> (Some e, l1, w1))"
proof (induction before arbitrary: l w)
  case Nil
  then show ?case by simp
next
  case (Cons input before)
  obtain received now where input: "input = (received, now)" by (cases input)
  obtain r l1 w1 where c: "cycle trading_client ticker received now l w = (r, l1, w1)"
    by (cases "cycle trading_client ticker received now l w")
  show ?case
    by (cases r) (simp_all add: input c Cons.IH)
qed

text \<open>
  Claim C8.  When the entry received for the configured ticker carries another symbol, the
  cycle raises \<open>ValueError\<close> before anything else happens.  The exception leaves the loop:
  the process prints it, closes its socket and terminates its context, and ends with that
  exception; the snapshots that would have followed are never read.
\<close>

theorem ticker_mismatch_fatal:
  assumes "received ticker = Some t" and "symbol t \<noteq> ticker"
      and "trade_loop trading_client ticker before initial_locals w = (None, l1, w1)"
  shows "cycle trading_client ticker received now l1 w1 = (Inl ValueError, l1, w1)
       \<and> individual_trade_execution trading_client ticker (before @ (received, now) # rest) w
           = (Some ValueError, \<lparr>socket_open = False, context_open = False\<rparr>, l1,
              print SocketAndContextClosed (print (ProcessEncounteredError ValueError) w1))"
proof -
  from assms(1,2) have c: "cycle trading_client ticker received now l1 w1 = (Inl ValueError, l1, w1)"
    by (simp add: cycle_def)
  then show ?thesis
    using assms(3) by (simp add: individual_trade_execution_def trade_loop_append)
qed

theorem ticker_mismatch_fatal_witness:
  "individual_trade_execution (fixed_client no_position (Inr []) (\<lambda>i. Inr ()) (Inl (Exn None)))
      ''GOOGL'' [([''GOOGL'' \<mapsto> \<lparr>symbol = ''AAPL'', price = 100, time = 0\<rparr>], 1), (aapl 100 0, 2)]
      new_world
   = (Some ValueError, \<lparr>socket_open = False, context_open = False\<rparr>, initial_locals,
      \<lparr>broker = (), calls = [],
       printed = [ProcessEncounteredError ValueError, SocketAndContextClosed]\<rparr>)"
proof -
  let ?tc = "fixed_client no_position (Inr []) (\<lambda>i. Inr ()) (Inl (Exn None))"
  let ?t = "\<lparr>symbol = ''AAPL'', price = 100, time = 0\<rparr>"
  have a: "[''GOOGL'' \<mapsto> ?t] ''GOOGL'' = Some ?t" by simp
  have b: "symbol ?t \<noteq> ''GOOGL''" by simp
  have c: "trade_loop ?tc ''GOOGL'' [] initial_locals new_world = (None, initial_locals, new_world)"
    by simp
  from ticker_mismatch_fatal [where received = "[''GOOGL'' \<mapsto> ?t]" and ticker = "''GOOGL''"
      and t = ?t and trading_client = ?tc and before = "[]" and w = new_world
      and ?l1.0 = initial_locals and ?w1.0 = new_world and now = 1 and rest = "[(aapl 100 0, 2)]"]
    a b c
  show ?thesis by (simp add: print_def new_world_def)
qed

lemma print_realtime_price_absent:
  assumes "prices ticker = None"
  shows "PriceLine ticker p t \<notin> set (print_realtime_price tickers prices)"
  using assms by (auto simp: print_realtime_price_def split: option.splits)

text \<open>
  Claim C10.  When the snapshot received has no entry for the configured ticker, the
  lookup raises \<open>KeyError\<close>: the cycle is not skipped, the exception leaves the loop and
  ends the process (after the socket and the context are closed).  The display consumer
  on the same snapshot prints nothing for that ticker and goes on: its output is the same
  as if the ticker were not tracked.
\<close>

theorem missing_symbol_fatal:
  assumes "received ticker = None"
      and "trade_loop trading_client ticker before initial_locals w = (None, l1, w1)"
  shows "cycle trading_client ticker received now l1 w1 = (Inl KeyError, l1, w1)
       \<and> individual_trade_execution trading_client ticker (before @ (received, now) # rest) w
           = (Some KeyError, \<lparr>socket_open = False, context_open = False\<rparr>, l1,
              print SocketAndContextClosed (print (ProcessEncounteredError KeyError) w1))
       \<and> print_realtime_price (ticker # tickers) received = print_realtime_price tickers received
       \<and> PriceLine ticker p ts \<notin> set (print_realtime_price tickers received)"
proof -
  from assms(1) have c: "cycle trading_client ticker received now l1 w1 = (Inl KeyError, l1, w1)"
    by (simp add: cycle_def)
  have d: "print_realtime_price (ticker # tickers) received = print_realtime_price tickers received"
    using assms(1) by (simp add: print_realtime_price_def)
  from c d print_realtime_price_absent [where prices = received and ticker = ticker] assms(1) show ?thesis
    using assms(2) by (simp add: individual_trade_execution_def trade_loop_append)
qed

theorem missing_symbol_fatal_witness:
  "aapl 100 0 ''GOOGL'' = None
   \<and> individual_trade_execution (fixed_client no_position (Inr []) (\<lambda>i. Inr ()) (Inl (Exn None)))
      ''GOOGL'' [(aapl 100 0, 1), (aapl 100 0, 2)] new_world
     = (Some KeyError, \<lparr>socket_open = False, context_open = False\<rparr>, initial_locals,
        \<lparr>broker = (), calls = [], printed = [ProcessEncounteredError KeyError, SocketAndContextClosed]\<rparr>)
   \<and> print_realtime_price [''GOOGL'', ''AAPL''] (aapl 100 0) = [PriceLine ''AAPL'' 100 0, EmptyLine]"
proof -
  let ?tc = "fixed_client no_position (Inr []) (\<lambda>i. Inr ()) (Inl (Exn None))"
  have a: "aapl 100 0 ''GOOGL'' = None" by (simp add: aapl_def)
  have c: "trade_loop ?tc ''GOOGL'' [] initial_locals new_world = (None, initial_locals, new_world)"
    by simp
  have d: "print_realtime_price [''AAPL''] (aapl 100 0) = [PriceLine ''AAPL'' 100 0, EmptyLine]"
    by (simp add: print_realtime_price_def aapl_def)
  from missing_symbol_fatal [where received = "aapl 100 0" and ticker = "''GOOGL''"
      and trading_client = ?tc and before = "[]" and w = new_world
      and ?l1.0 = initial_locals and ?w1.0 = new_world and now = 1 and rest = "[(aapl 100 0, 2)]"
      and tickers = "[''AAPL'']" and p = 100 and ts = 0]
    a c d
  show ?thesis by (simp add: print_def new_world_def)
qed

section \<open>Reconciliation against the open orders\<close>





text \<open>
  The branch for exactly one open order.  With an order request built in this cycle: an
  order equal to it in the four fields compared is left alone, with no cancel and no
  submit; an order that differs is cancelled; when that cancellation raises the function
  returns without a submission, and otherwise it goes on to submit.  With no order request
  (a stale tick), reading \<open>order_req\<close> at line 102 raises before any comparison.
\<close>

lemma one_open_order:
  assumes "do_call (GetOrders ticker) (get_orders trading_client ticker) w = (Inr [ord], w1)"
  shows "reconcile trading_client ticker None w = (Inl (UnboundLocalError ''order_req''), w1)"
    and "\<not> differs req ord \<Longrightarrow>
           reconcile trading_client ticker (Some req) w = (Inr None, print OrderAlreadyExists w1)"
    and "differs req ord \<Longrightarrow>
         do_call (CancelOrderById (order_id ord))
           (cancel_order_by_id trading_client (order_id ord)) w1 = (Inl e, w2) \<Longrightarrow>
           reconcile trading_client ticker (Some req) w
             = (Inr None, print WarningCancellingExistingOrder w2)
           \<and> calls w2 = calls w @ [GetOrders ticker, CancelOrderById (order_id ord)]"
    and "differs req ord \<Longrightarrow>
         do_call (CancelOrderById (order_id ord))
           (cancel_order_by_id trading_client (order_id ord)) w1 = (Inr u, w2) \<Longrightarrow>
           reconcile trading_client ticker (Some req) w = submit trading_client (Some req) w2
           \<and> calls w2 = calls w @ [GetOrders ticker, CancelOrderById (order_id ord)]"
proof -
  from assms have w1: "calls w1 = calls w @ [GetOrders ticker]"
    by (auto simp: do_call_def split: prod.splits)
  show "reconcile trading_client ticker None w = (Inl (UnboundLocalError ''order_req''), w1)"
    using assms by (simp add: reconcile_def)
  show "\<not> differs req ord \<Longrightarrow>
           reconcile trading_client ticker (Some req) w = (Inr None, print OrderAlreadyExists w1)"
    using assms by (simp add: reconcile_def)
  show "differs req ord \<Longrightarrow>
         do_call (CancelOrderById (order_id ord))
           (cancel_order_by_id trading_client (order_id ord)) w1 = (Inl e, w2) \<Longrightarrow>
           reconcile trading_client ticker (Some req) w
             = (Inr None, print WarningCancellingExistingOrder w2)
           \<and> calls w2 = calls w @ [GetOrders ticker, CancelOrderById (order_id ord)]"
    using assms w1 by (auto simp: reconcile_def do_call_def split: prod.splits)
  show "differs req ord \<Longrightarrow>
         do_call (CancelOrderById (order_id ord))
           (cancel_order_by_id trading_client (order_id ord)) w1 = (Inr u, w2) \<Longrightarrow>
           reconcile trading_client ticker (Some req) w = submit trading_client (Some req) w2
           \<and> calls w2 = calls w @ [GetOrders ticker, CancelOrderById (order_id ord)]"
    using assms w1 by (auto simp: reconcile_def do_call_def split: prod.splits)
qed

lemma fresh_matching_order:
  "cycle (fixed_client no_position (Inr [buy_order 1 99.001]) (\<lambda>i. Inr ()) (Inr (buy_order 2 99)))
      ''AAPL'' (aapl 100 0) 1 initial_locals new_world
   = (Inr (),
      \<lparr>last_buy = Some 99, last_sell = Some 101, last_qty = Some 1, order = Some None\<rparr>,
      \<lparr>broker = (), calls = [GetOpenPosition ''AAPL'', GetOrders ''AAPL''],
       printed = [OrderAlreadyExists]\<rparr>)"
  by (simp add: engine_defs round2_def)

text \<open>
  Claim C5 at a stale tick.  The warning printed says that all pending orders are
  cleared, and the one open order differs from an intent that wants no order.  The cycle
  makes the two queries and no cancellation: \<open>execute_trade\<close> raises
  \<open>UnboundLocalError\<close> for \<open>order_req\<close>, which the loop prints, and the open order stays.
\<close>

theorem stale_one_open_order:
  "cycle (fixed_client no_position (Inr [buy_order 1 99]) (\<lambda>i. Inr ()) (Inr (buy_order 2 99)))
      ''AAPL'' (aapl 100 0) 10
      \<lparr>last_buy = Some 99, last_sell = Some 101, last_qty = Some 1, order = Some (Some (buy_order 1 99))\<rparr>
      new_world
   = (Inr (),
      \<lparr>last_buy = None, last_sell = None, last_qty = Some 1, order = Some (Some (buy_order 1 99))\<rparr>,
      \<lparr>broker = (),
       calls = [GetOpenPosition ''AAPL'', GetOrders ''AAPL''],
       printed = [WarningStaleTradeRequest, ErrorExecutingTrade (UnboundLocalError ''order_req''),
                  OrderUpdated 1]\<rparr>)"
  by (simp add: engine_defs)

text \<open>
  Once \<open>order\<close> is bound, that is once \<open>execute_trade\<close> has returned normally in some
  earlier cycle, no failure of the broker ends the loop.
\<close>

lemma cycle_continues_when_order_bound:
  assumes "received ticker = Some t" and "symbol t = ticker" and "order l \<noteq> None"
  shows "fst (cycle trading_client ticker received now l w) = Inr ()
       \<and> order (fst (snd (cycle trading_client ticker received now l w))) \<noteq> None"
  using assms
  by (auto simp: cycle_def Let_def split: prod.splits option.splits sum.splits)

text \<open>
  Claim C2 on the very first cycle.  The broker refuses the submission: \<open>execute_trade\<close>
  prints the failure and then raises \<open>UnboundLocalError\<close> for \<open>new_order\<close>; the loop prints
  that one too, stores the triple, and reads \<open>order\<close>, which was never bound.  This
  second \<open>UnboundLocalError\<close> is outside the inner \<open>try\<close>: it ends the process, and the
  snapshot that follows is never read.
\<close>

theorem first_cycle_submit_failure:
  "individual_trade_execution
      (fixed_client no_position (Inr []) (\<lambda>i. Inr ()) (Inl (Exn (Some ''insufficient buying power''))))
      ''AAPL'' [(aapl 100 0, 1), (aapl 101 1, 2)] new_world
   = (Some (UnboundLocalError ''order''), \<lparr>socket_open = False, context_open = False\<rparr>,
      \<lparr>last_buy = Some 99, last_sell = Some 101, last_qty = Some 1, order = None\<rparr>,
      \<lparr>broker = (),
       calls = [GetOpenPosition ''AAPL'', GetOrders ''AAPL'',
                SubmitOrder \<lparr>order_symbol = ''AAPL'', limit_price = 99, qty = 1, side = BUY,
                             time_in_force = DAY\<rparr>],
       printed = [ErrorSubmittingOrder, ErrorExecutingTrade (UnboundLocalError ''new_order''),
                  ProcessEncounteredError (UnboundLocalError ''order''), SocketAndContextClosed]\<rparr>)"
  by (simp add: engine_defs)

end
